theory Spec2Isabelle
  imports
    Complex_Main
    "HOL-Library.Sublist"
    "HOL-Library.Multiset"
    "HOL-Library.Char_ord"
    "HOL-Library.List_Lexorder"
begin

section \<open>The data model of \<^verbatim>\<open>behavior_trends_analysis.py\<close>\<close>

text \<open>
  The program works on pandas data frames of retail transactions. A frame is modelled as
  the list of its rows, in index order, and a row as a record of the columns the program
  reads or writes. The row index of a frame is not a column and is left out.

  \<^item> A null cell (\<^verbatim>\<open>None\<close>, \<^verbatim>\<open>NaN\<close>, \<^verbatim>\<open>NaT\<close>) is \<open>None\<close> of an option type, or the
    constructor \<open>NaT\<close> of a date cell. \<open>CustomerID\<close>, \<open>Quantity\<close>, \<open>UnitPrice\<close> and
    \<open>InvoiceDate\<close> may be null; \<open>InvoiceNo\<close> and \<open>Description\<close> are text.
  \<^item> Floating-point columns are modelled by rationals: sums, products and means are
    exact, and \<^verbatim>\<open>NaN\<close> is \<open>None\<close>.
  \<^item> A timestamp keeps its calendar date; the time of day plays no part in the
    quarterly bins and is left out.
  \<^item> \<open>TransactionRevenue\<close> is the column that \<^verbatim>\<open>quarterly_revenue\<close> writes into its
    argument. It is absent (\<open>None\<close>) in a frame that has not been through that
    function, and \<open>Some v\<close> with the cell \<open>v\<close> afterwards.
  \<^item> Strings are byte lists, ordered as Python orders them: lexicographically by
    character code.
\<close>

record timestamp =
  year :: int
  month :: nat
  day :: nat

datatype date_cell = NaT | Timestamp timestamp | Text string

record row =
  CustomerID :: "int option"
  InvoiceNo :: string
  Description :: string
  Quantity :: "int option"
  UnitPrice :: "rat option"
  InvoiceDate :: date_cell
  TransactionRevenue :: "rat option option"

type_synonym DataFrame = "row list"

text \<open>
  An exception is a value: \<open>ValueError\<close> is the one the program raises itself,
  \<open>LibraryError\<close> stands for any exception that pandas raises, with its name.
\<close>

datatype error = ValueError string | LibraryError string

section \<open>\<^verbatim>\<open>import_data\<close>\<close>

text \<open>
  \<^verbatim>\<open>str.split(sep)\<close> with a one-character separator: the pieces between the
  separators, never an empty list.
\<close>

fun split :: "char \<Rightarrow> string \<Rightarrow> string list" where
  "split sep [] = [[]]"
| "split sep (c # cs) =
     (if c = sep then [] # split sep cs
      else (case split sep cs of
              [] \<Rightarrow> [[c]]
            | p # ps \<Rightarrow> (c # p) # ps))"

text \<open>
  \<^verbatim>\<open>str.lower()\<close> on the ASCII letters; every other byte is kept. No character
  outside ASCII is lowered by Python to one of the letters of \<^verbatim>\<open>xlsx\<close> or \<^verbatim>\<open>csv\<close>,
  so the two comparisons of \<^verbatim>\<open>import_data\<close> are not affected.
\<close>

definition lower_char :: "char \<Rightarrow> char" where
  "lower_char c =
     (let n = (of_char c :: nat)
      in if 65 \<le> n \<and> n \<le> 90 then char_of (n + 32) else c)"

definition lower :: "string \<Rightarrow> string" where
  "lower s = map lower_char s"

text \<open>Line 16: \<^verbatim>\<open>file_path.split('.')[-1].lower()\<close>.\<close>

definition file_extension :: "string \<Rightarrow> string" where
  "file_extension file_path = lower (last (split (CHR ''.'') file_path))"

text \<open>
  The two pandas readers are parameters: they stand for the file system and the parsers.
  A reader returns the frame, or the name of the exception it raised.
\<close>

definition from_library :: "string + 'a \<Rightarrow> error + 'a" where
  "from_library r = (case r of Inl e \<Rightarrow> Inl (LibraryError e) | Inr v \<Rightarrow> Inr v)"

definition import_data ::
  "(string \<Rightarrow> string + DataFrame) \<Rightarrow> (string \<Rightarrow> string + DataFrame) \<Rightarrow> string
     \<Rightarrow> error + DataFrame" where
  "import_data read_excel read_csv file_path =
     (let file_extension = lower (last (split (CHR ''.'') file_path))
      in if file_extension = ''xlsx'' then from_library (read_excel file_path)
         else if file_extension = ''csv'' then from_library (read_csv file_path)
         else Inl (ValueError ''File format not supported. Use .xlsx or .csv files.''))"

section \<open>\<^verbatim>\<open>filter_data\<close>\<close>

text \<open>
  \<^verbatim>\<open>dropna(subset=['CustomerID'])\<close> keeps the rows whose \<open>CustomerID\<close> is not null.
  A comparison \<^verbatim>\<open>column >= 0\<close> is false on a null cell. Indexing a frame by a boolean
  mask keeps the rows at the positions where the mask is true. Each of the three returns
  a new frame; the function assigns to no column of \<^verbatim>\<open>dataset\<close>.
\<close>

definition dropna_CustomerID :: "DataFrame \<Rightarrow> DataFrame" where
  "dropna_CustomerID dataset = filter (\<lambda>r. CustomerID r \<noteq> None) dataset"

definition ge_zero :: "'a::{zero,ord} option \<Rightarrow> bool" where
  "ge_zero v = (case v of None \<Rightarrow> False | Some x \<Rightarrow> 0 \<le> x)"

definition select_mask :: "'a list \<Rightarrow> bool list \<Rightarrow> 'a list" where
  "select_mask df bools = map fst (filter snd (zip df bools))"

definition filter_data :: "DataFrame \<Rightarrow> DataFrame" where
  "filter_data dataset =
     (let valid_data = dropna_CustomerID dataset;
          mask = map (\<lambda>r. ge_zero (Quantity r) \<and> ge_zero (UnitPrice r)) valid_data;
          cleaned_data = select_mask valid_data mask
      in cleaned_data)"

text \<open>The three conditions of a cleaned row, and a cleaned frame.\<close>

definition valid_row :: "row \<Rightarrow> bool" where
  "valid_row r =
     (CustomerID r \<noteq> None \<and> ge_zero (Quantity r) \<and> ge_zero (UnitPrice r))"

definition cleaned :: "DataFrame \<Rightarrow> bool" where
  "cleaned df = list_all valid_row df"

section \<open>Grouping, reductions and sorting\<close>

text \<open>
  \<^verbatim>\<open>df.groupby(column)\<close> with the defaults \<^verbatim>\<open>sort=True\<close> and \<^verbatim>\<open>dropna=True\<close>:
  one group per distinct key that is not null, the groups in ascending order of the key,
  each group holding its rows in frame order. The key function returns \<open>None\<close> for a
  null cell.
\<close>

definition groupby :: "('r \<Rightarrow> 'k::linorder option) \<Rightarrow> 'r list \<Rightarrow> ('k \<times> 'r list) list" where
  "groupby key df =
     map (\<lambda>k. (k, filter (\<lambda>r. key r = Some k) df)) (sort (remdups (List.map_filter key df)))"

text \<open>\<^verbatim>\<open>nunique()\<close>: the number of distinct values of a column without nulls.\<close>

definition nunique :: "'a list \<Rightarrow> nat" where
  "nunique cells = length (remdups cells)"

text \<open>
  \<^verbatim>\<open>sum()\<close> and \<^verbatim>\<open>mean()\<close> skip null cells. The sum of no cells is \<open>0\<close>, the mean of no
  cells is null.
\<close>

definition sum_skipna :: "'a::monoid_add option list \<Rightarrow> 'a" where
  "sum_skipna cells = sum_list (List.map_filter id cells)"

definition mean_skipna :: "rat option list \<Rightarrow> rat option" where
  "mean_skipna cells =
     (let present = List.map_filter id cells
      in if present = [] then None else Some (sum_list present / of_nat (length present)))"

text \<open>
  pandas holds a column of integers without null cells as \<^verbatim>\<open>int64\<close>, and the sum of
  such a column is computed in \<^verbatim>\<open>int64\<close>: it wraps around at \<open>2 ^ 63\<close>. A column with a
  null cell is held as \<^verbatim>\<open>float64\<close>; its sum is modelled exactly, like every
  floating-point result here. The cells of an \<^verbatim>\<open>int64\<close> column lie between \<open>- 2 ^ 63\<close>
  and \<open>2 ^ 63 - 1\<close>.
\<close>

definition wrap_int64 :: "int \<Rightarrow> int" where
  "wrap_int64 x = (x + 2 ^ 63) mod 2 ^ 64 - 2 ^ 63"

text \<open>\<^verbatim>\<open>head(n)\<close>: the first \<open>n\<close> rows, and all but the last \<open>-n\<close> rows when \<open>n\<close> is negative.\<close>

definition head :: "int \<Rightarrow> 'a list \<Rightarrow> 'a list" where
  "head n df = (if 0 \<le> n then take (nat n) df else take (length df - nat (- n)) df)"

text \<open>
  \<^verbatim>\<open>sort_values(column, ascending=False)\<close> is called with the default
  \<^verbatim>\<open>kind='quicksort'\<close>, which the library documents as not stable: the result is the
  rows of the frame in descending order of the column, and where rows have equal keys
  their order is whatever the sorting routine of the installed numpy gives. The sort is
  therefore a parameter of the functions that call it, and \<open>sorts_descending\<close> is all
  that is known of it.
\<close>

definition sorts_descending :: "('a \<Rightarrow> 'k::linorder) \<Rightarrow> ('a list \<Rightarrow> 'a list) \<Rightarrow> bool" where
  "sorts_descending key sort_values =
     (\<forall>df. mset (sort_values df) = mset df \<and>
           sorted_wrt (\<lambda>a b. key b \<le> key a) (sort_values df))"

text \<open>
  Two sorts that meet the contract. The first keeps rows with equal keys in frame order
  (what pandas computes with \<^verbatim>\<open>kind='stable'\<close>); the second reverses them.
\<close>

definition stable_sort_descending :: "('a \<Rightarrow> 'k::linorder) \<Rightarrow> 'a list \<Rightarrow> 'a list" where
  "stable_sort_descending key df = rev (sort_key key (rev df))"

definition reversing_sort_descending :: "('a \<Rightarrow> 'k::linorder) \<Rightarrow> 'a list \<Rightarrow> 'a list" where
  "reversing_sort_descending key df = rev (sort_key key df)"

section \<open>\<^verbatim>\<open>loyalty_customers\<close>\<close>

text \<open>The summary frame with the columns \<^verbatim>\<open>CustomerID\<close> and \<^verbatim>\<open>PurchaseCount\<close>.\<close>

record loyal_row =
  CustomerID' :: int
  PurchaseCount :: nat

definition loyalty_customers ::
  "(loyal_row list \<Rightarrow> loyal_row list) \<Rightarrow> DataFrame \<Rightarrow> int \<Rightarrow> loyal_row list" where
  "loyalty_customers sort_values df min_purchases =
     (let customer_purchases =
            map (\<lambda>(c, g). \<lparr>CustomerID' = c, PurchaseCount = nunique (map InvoiceNo g)\<rparr>)
              (groupby CustomerID df);
          loyal_customers =
            filter (\<lambda>r. min_purchases \<le> int (PurchaseCount r)) customer_purchases
      in sort_values loyal_customers)"

section \<open>\<^verbatim>\<open>quarterly_revenue\<close>\<close>

text \<open>
  Calendar quarters are numbered: quarter \<open>4 * y + k\<close> is the \<open>k\<close>-th quarter
  (\<open>k = 0, 1, 2, 3\<close>) of the year \<open>y\<close>. A bin of \<^verbatim>\<open>pd.Grouper(freq='Q')\<close> is labelled by
  the last day of its quarter. Months are \<open>1\<close> to \<open>12\<close>.
\<close>

definition quarter_index :: "timestamp \<Rightarrow> int" where
  "quarter_index ts = 4 * year ts + int ((month ts - 1) div 3)"

definition quarter_end :: "int \<Rightarrow> timestamp" where
  "quarter_end q =
     \<lparr>year = q div 4, month = 3 * nat (q mod 4) + 3,
      day = (if q mod 4 = 0 \<or> q mod 4 = 3 then 31 else 30)\<rparr>"

text \<open>
  \<^verbatim>\<open>pd.to_datetime\<close> on one cell, with the default \<^verbatim>\<open>errors='raise'\<close>: a null cell
  becomes \<^verbatim>\<open>NaT\<close>, a timestamp is kept, a text is parsed, and a text that does not parse
  raises (\<open>None\<close>). The parser of the library is the parameter \<open>parse\<close>.
\<close>

fun to_datetime :: "(string \<Rightarrow> timestamp option) \<Rightarrow> date_cell \<Rightarrow> date_cell option" where
  "to_datetime parse NaT = Some NaT"
| "to_datetime parse (Timestamp ts) = Some (Timestamp ts)"
| "to_datetime parse (Text s) = map_option Timestamp (parse s)"

fun cell_quarter :: "date_cell \<Rightarrow> int option" where
  "cell_quarter NaT = None"
| "cell_quarter (Timestamp ts) = Some (quarter_index ts)"
| "cell_quarter (Text s) = None"

text \<open>The product of two numeric cells is null when one of them is.\<close>

definition mul_cells :: "rat option \<Rightarrow> int option \<Rightarrow> rat option" where
  "mul_cells p q =
     (case p of None \<Rightarrow> None
      | Some a \<Rightarrow> (case q of None \<Rightarrow> None | Some b \<Rightarrow> Some (a * of_int b)))"

definition revenue_cell :: "row \<Rightarrow> rat option" where
  "revenue_cell r = (case TransactionRevenue r of None \<Rightarrow> None | Some v \<Rightarrow> v)"

text \<open>The summary frame with the columns \<^verbatim>\<open>period\<close> and \<^verbatim>\<open>revenue\<close>.\<close>

record quarter_row =
  period :: timestamp
  revenue :: rat

text \<open>
  Lines 130 to 134, on a frame whose \<open>InvoiceDate\<close> column holds timestamps and \<^verbatim>\<open>NaT\<close>:
  \<^verbatim>\<open>groupby(pd.Grouper(key='InvoiceDate', freq='Q'))['TransactionRevenue'].sum()\<close>.
  The grouper bins the dated rows as a resampler does: one bin for every quarter from
  the quarter of the earliest date to the quarter of the latest date, in chronological
  order, also for a quarter in which no row falls, whose sum is \<open>0\<close>. Rows dated
  \<^verbatim>\<open>NaT\<close> are in no bin. An empty frame gives an empty summary. On a frame that has
  rows but no date at all the library takes the minimum of the dates, which is
  \<^verbatim>\<open>NaT\<close>, and raises on normalising it.
\<close>

definition groupby_quarter_sum :: "DataFrame \<Rightarrow> error + quarter_row list" where
  "groupby_quarter_sum df =
     (let quarters = List.map_filter (\<lambda>r. cell_quarter (InvoiceDate r)) df
      in if df = [] then Inr []
         else if quarters = [] then Inl (LibraryError ''AttributeError'')
         else Inr (map (\<lambda>q. \<lparr>period = quarter_end q,
                              revenue = sum_skipna (map revenue_cell
                                (filter (\<lambda>r. cell_quarter (InvoiceDate r) = Some q) df))\<rparr>)
                    [Min (set quarters) .. Max (set quarters)]))"

text \<open>
  The function assigns two columns of its argument (lines 124 and 127), so the model
  returns the argument as the call leaves it, together with the summary or the exception.
  When a date does not parse, line 124 raises before anything is assigned. A frame
  without rows has no cell to show the new column in, so the model leaves it as it is.
\<close>

definition quarterly_revenue ::
  "(string \<Rightarrow> timestamp option) \<Rightarrow> DataFrame \<Rightarrow> DataFrame \<times> (error + quarter_row list)" where
  "quarterly_revenue parse transactions =
     (case those (map (\<lambda>r. to_datetime parse (InvoiceDate r)) transactions) of
        None \<Rightarrow> (transactions, Inl (LibraryError ''DateParseError''))
      | Some dates \<Rightarrow>
          (let transactions1 = map2 (\<lambda>r d. r\<lparr>InvoiceDate := d\<rparr>) transactions dates;
               transactions2 =
                 map (\<lambda>r. r\<lparr>TransactionRevenue := Some (mul_cells (UnitPrice r) (Quantity r))\<rparr>)
                   transactions1
           in (transactions2, groupby_quarter_sum transactions2)))"

section \<open>\<^verbatim>\<open>high_demand_products\<close>\<close>

text \<open>The summary frame with the columns \<^verbatim>\<open>ProductName\<close> and \<^verbatim>\<open>TotalSold\<close>.\<close>

record product_row =
  ProductName :: string
  TotalSold :: int

text \<open>
  The sum of the \<open>Quantity\<close> cells of a group \<open>g\<close> of the frame \<open>sales_data\<close>: in
  \<^verbatim>\<open>int64\<close> when the column of the frame has no null cell, exact otherwise.
\<close>

definition sum_Quantity :: "DataFrame \<Rightarrow> DataFrame \<Rightarrow> int" where
  "sum_Quantity sales_data g =
     (if list_all (\<lambda>r. Quantity r \<noteq> None) sales_data
      then wrap_int64 (sum_skipna (map Quantity g))
      else sum_skipna (map Quantity g))"

definition high_demand_products ::
  "(product_row list \<Rightarrow> product_row list) \<Rightarrow> DataFrame \<Rightarrow> int \<Rightarrow> product_row list" where
  "high_demand_products sort_values sales_data limit =
     (let product_sales =
            map (\<lambda>(d, g). \<lparr>ProductName = d, TotalSold = sum_Quantity sales_data g\<rparr>)
              (groupby (\<lambda>r. Some (Description r)) sales_data);
          bestsellers = head limit (sort_values product_sales)
      in bestsellers)"

section \<open>\<^verbatim>\<open>purchase_patterns\<close>\<close>

text \<open>The summary frame with the columns \<^verbatim>\<open>item\<close>, \<^verbatim>\<open>mean_quantity\<close>, \<^verbatim>\<open>mean_price\<close>.\<close>

record pattern_row =
  item :: string
  mean_quantity :: "rat option"
  mean_price :: "rat option"

definition purchase_patterns :: "DataFrame \<Rightarrow> pattern_row list" where
  "purchase_patterns sales_data =
     (let product_analysis =
            map (\<lambda>(d, g). \<lparr>item = d,
                           mean_quantity = mean_skipna (map (\<lambda>r. map_option of_int (Quantity r)) g),
                           mean_price = mean_skipna (map UnitPrice g)\<rparr>)
              (groupby (\<lambda>r. Some (Description r)) sales_data)
      in product_analysis)"

section \<open>The quantities the claims speak of\<close>

text \<open>
  These definitions follow the words of the specification, not the code: the number of
  distinct invoice numbers of a customer, the total quantity of a product, the rows of a
  product, and the arithmetic mean of a list of numbers.
\<close>

text \<open>
  The docstring of \<^verbatim>\<open>import_data\<close> and the specification speak of the file extension
  being \<^verbatim>\<open>.xlsx\<close> or \<^verbatim>\<open>.csv\<close>: the path has a dot, and what follows its last dot is
  \<open>xlsx\<close> or \<open>csv\<close>, in any letter case.
\<close>

definition has_supported_extension :: "string \<Rightarrow> bool" where
  "has_supported_extension file_path =
     (CHR ''.'' \<in> set file_path \<and>
      lower (rev (takeWhile (\<lambda>c. c \<noteq> CHR ''.'') (rev file_path))) \<in> {''xlsx'', ''csv''})"

definition invoice_count :: "DataFrame \<Rightarrow> int \<Rightarrow> nat" where
  "invoice_count df c = card (InvoiceNo ` {r \<in> set df. CustomerID r = Some c})"

definition total_sold :: "DataFrame \<Rightarrow> string \<Rightarrow> int" where
  "total_sold df d = sum_skipna (map Quantity (filter (\<lambda>r. Description r = d) df))"

definition product_rows :: "DataFrame \<Rightarrow> string \<Rightarrow> DataFrame" where
  "product_rows df d = filter (\<lambda>r. Description r = d) df"

definition arithmetic_mean :: "rat list \<Rightarrow> rat" where
  "arithmetic_mean xs = sum_list xs / of_nat (length xs)"

text \<open>
  For \<^verbatim>\<open>quarterly_revenue\<close>: the quarter in which the date of a row falls once it is
  parsed (none for a null date), the revenue of a row, the revenue of the rows of a
  quarter, whether every date of a frame is null or parses, and the quarters of the dated
  rows of a frame.
\<close>

definition parsed_quarter :: "(string \<Rightarrow> timestamp option) \<Rightarrow> row \<Rightarrow> int option" where
  "parsed_quarter parse r =
     (case InvoiceDate r of
        NaT \<Rightarrow> None
      | Timestamp ts \<Rightarrow> Some (quarter_index ts)
      | Text s \<Rightarrow> map_option quarter_index (parse s))"

definition row_revenue :: "row \<Rightarrow> rat option" where
  "row_revenue r = mul_cells (UnitPrice r) (Quantity r)"

definition quarter_total :: "(string \<Rightarrow> timestamp option) \<Rightarrow> DataFrame \<Rightarrow> int \<Rightarrow> rat" where
  "quarter_total parse df q =
     sum_skipna (map row_revenue (filter (\<lambda>r. parsed_quarter parse r = Some q) df))"

definition dates_parse :: "(string \<Rightarrow> timestamp option) \<Rightarrow> DataFrame \<Rightarrow> bool" where
  "dates_parse parse df = list_all (\<lambda>r. to_datetime parse (InvoiceDate r) \<noteq> None) df"

definition dated_quarters :: "(string \<Rightarrow> timestamp option) \<Rightarrow> DataFrame \<Rightarrow> int list" where
  "dated_quarters parse df = List.map_filter (parsed_quarter parse) df"

text \<open>A row as lines 124 and 127 leave it, when its date is null or parses.\<close>

definition assign_columns :: "(string \<Rightarrow> timestamp option) \<Rightarrow> row \<Rightarrow> row" where
  "assign_columns parse r =
     r\<lparr>InvoiceDate := the (to_datetime parse (InvoiceDate r)),
       TransactionRevenue := Some (row_revenue r)\<rparr>"

section \<open>Example frames\<close>

text \<open>A parser for dates written \<^verbatim>\<open>YYYY-MM-DD\<close>, one of the forms that pandas reads.\<close>

definition digit :: "char \<Rightarrow> nat option" where
  "digit c =
     (let n = (of_char c :: nat) in if 48 \<le> n \<and> n \<le> 57 then Some (n - 48) else None)"

definition iso_date :: "string \<Rightarrow> timestamp option" where
  "iso_date s =
     (case s of
        [y1, y2, y3, y4, s1, m1, m2, s2, d1, d2] \<Rightarrow>
          (case those (map digit [y1, y2, y3, y4, m1, m2, d1, d2]) of
             Some [a, b, c, d, e, f, g, h] \<Rightarrow>
               (if s1 = CHR ''-'' \<and> s2 = CHR ''-'' \<and> 1 \<le> 10 * e + f \<and> 10 * e + f \<le> 12
                   \<and> 1 \<le> 10 * g + h \<and> 10 * g + h \<le> 31
                then Some \<lparr>year = int (1000 * a + 100 * b + 10 * c + d),
                           month = 10 * e + f, day = 10 * g + h\<rparr>
                else None)
           | _ \<Rightarrow> None)
      | _ \<Rightarrow> None)"

definition sale :: "int option \<Rightarrow> string \<Rightarrow> string \<Rightarrow> int \<Rightarrow> rat \<Rightarrow> date_cell \<Rightarrow> row" where
  "sale c i d q p t =
     \<lparr>CustomerID = c, InvoiceNo = i, Description = d, Quantity = Some q, UnitPrice = Some p,
      InvoiceDate = t, TransactionRevenue = None\<rparr>"

definition raw_example :: DataFrame where
  "raw_example =
     [sale None ''536365'' ''LANTERN'' 6 (339 / 100) (Text ''2011-01-15''),
      sale (Some 17850) ''536365'' ''LANTERN'' 6 (339 / 100) (Text ''2011-01-15''),
      sale (Some 17850) ''C536379'' ''LANTERN'' (- 1) (339 / 100) (Text ''2011-01-16''),
      (sale (Some 13047) ''536367'' ''MUG'' 2 1 (Text ''2011-02-01''))\<lparr>UnitPrice := None\<rparr>,
      sale (Some 13047) ''536367'' ''MUG'' 2 (5 / 2) (Text ''2011-02-01'')]"

definition loyalty_example :: DataFrame where
  "loyalty_example =
     [sale (Some 1) ''I1'' ''MUG'' 1 1 NaT, sale (Some 1) ''I1'' ''LANTERN'' 1 1 NaT,
      sale (Some 1) ''I2'' ''MUG'' 1 1 NaT, sale (Some 2) ''I3'' ''MUG'' 1 1 NaT]"

definition quarters_example :: DataFrame where
  "quarters_example =
     [sale (Some 1) ''I1'' ''MUG'' 2 5 (Text ''2011-01-15''),
      sale (Some 1) ''I2'' ''MUG'' 4 5 (Timestamp \<lparr>year = 2011, month = 3, day = 31\<rparr>),
      sale (Some 2) ''I3'' ''MUG'' 1 5 (Text ''2011-08-01'')]"

definition undated_example :: DataFrame where
  "undated_example =
     [sale (Some 1) ''I1'' ''MUG'' 2 5 (Text ''2011-01-15''),
      sale (Some 1) ''I2'' ''MUG'' 4 5 NaT,
      sale (Some 2) ''I3'' ''MUG'' 1 5 (Text ''2011-05-01'')]"

definition unparseable_example :: DataFrame where
  "unparseable_example =
     [sale (Some 1) ''I1'' ''MUG'' 2 5 (Text ''2011-01-15''),
      sale (Some 1) ''I2'' ''MUG'' 4 5 (Text ''not a date'')]"

definition products_example :: DataFrame where
  "products_example =
     [sale (Some 1) ''I1'' ''C'' 9 1 NaT, sale (Some 1) ''I1'' ''A'' 5 1 NaT,
      sale (Some 1) ''I2'' ''B'' 4 1 NaT, sale (Some 2) ''I3'' ''B'' 5 1 NaT]"

definition tied_products_example :: DataFrame where
  "tied_products_example =
     [sale (Some 1) ''I1'' ''P0'' 1 1 NaT, sale (Some 1) ''I1'' ''P1'' 1 1 NaT,
      sale (Some 1) ''I2'' ''P2'' 3 1 NaT, sale (Some 2) ''I3'' ''P3'' 2 1 NaT]"

definition large_products_example :: DataFrame where
  "large_products_example =
     [sale (Some 1) ''I1'' ''A'' (2 ^ 62) 1 NaT, sale (Some 1) ''I2'' ''A'' (2 ^ 62) 1 NaT,
      sale (Some 2) ''I3'' ''B'' 1 1 NaT]"

definition patterns_example :: DataFrame where
  "patterns_example =
     [sale (Some 1) ''I1'' ''X'' 2 10 NaT, sale (Some 1) ''I1'' ''A'' 5 1 NaT,
      sale (Some 2) ''I2'' ''X'' 4 20 NaT]"

section \<open>Properties of \<^verbatim>\<open>filter_data\<close>\<close>

lemma select_mask_map: "select_mask df (map P df) = filter P df"
  unfolding select_mask_def by (induction df) auto

lemma filter_data_filter: "filter_data dataset = filter valid_row dataset"
proof -
  have "filter_data dataset =
      filter (\<lambda>r. ge_zero (Quantity r) \<and> ge_zero (UnitPrice r))
        (filter (\<lambda>r. CustomerID r \<noteq> None) dataset)"
    by (simp add: filter_data_def dropna_CustomerID_def select_mask_map)
  also have "\<dots> = filter valid_row dataset"
    by (induction dataset) (auto simp: valid_row_def)
  finally show ?thesis .
qed

lemma cleaned_filter_data: "cleaned (filter_data dataset)"
  by (simp add: cleaned_def filter_data_filter list_all_iff)

lemma ge_zero_Some: "ge_zero v \<longleftrightarrow> (\<exists>x. v = Some x \<and> 0 \<le> x)"
  by (cases v) (simp_all add: ge_zero_def)

text \<open>
  Claim C5. Every row that \<open>filter_data\<close> keeps has a \<open>CustomerID\<close> that is not null
  and a \<open>Quantity\<close> and a \<open>UnitPrice\<close> that are not negative; every kept row is a
  row of the input; the output is a subsequence of the input, which also says that no row
  occurs more often than in the input; and the empty frame gives the empty frame. The
  function has no failing branch: it returns a frame on every input.
\<close>

theorem filter_data_retains_valid_rows_in_order:
  "(\<forall>r \<in> set (filter_data dataset).
       (\<exists>c. CustomerID r = Some c) \<and>
       (\<exists>q. Quantity r = Some q \<and> 0 \<le> q) \<and>
       (\<exists>p. UnitPrice r = Some p \<and> 0 \<le> p))
   \<and> set (filter_data dataset) \<subseteq> set dataset
   \<and> subseq (filter_data dataset) dataset
   \<and> (\<forall>r. count (mset (filter_data dataset)) r \<le> count (mset dataset) r)
   \<and> filter_data [] = []"
proof -
  have 1: "\<forall>r \<in> set (filter_data dataset).
       (\<exists>c. CustomerID r = Some c) \<and>
       (\<exists>q. Quantity r = Some q \<and> 0 \<le> q) \<and>
       (\<exists>p. UnitPrice r = Some p \<and> 0 \<le> p)"
    by (auto simp: filter_data_filter valid_row_def ge_zero_Some)
  have 2: "set (filter_data dataset) \<subseteq> set dataset"
    by (auto simp: filter_data_filter)
  have 3: "subseq (filter_data dataset) dataset"
    by (simp add: filter_data_filter)
  have 4: "\<forall>r. count (mset (filter_data dataset)) r \<le> count (mset dataset) r"
    by (simp add: filter_data_filter)
  have 5: "filter_data [] = []"
    by (simp add: filter_data_filter)
  from 1 2 3 4 5 show ?thesis by blast
qed

theorem filter_data_retains_valid_rows_in_order_witness:
  "sale (Some 17850) ''536365'' ''LANTERN'' 6 (339 / 100) (Text ''2011-01-15'')
     \<in> set (filter_data raw_example)
   \<and> (\<exists>c. CustomerID (sale (Some 17850) ''536365'' ''LANTERN'' 6 (339 / 100)
          (Text ''2011-01-15'')) = Some c)
   \<and> length (filter_data raw_example) = 2
   \<and> subseq (filter_data raw_example) raw_example"
proof -
  have rows: "filter_data raw_example =
      [sale (Some 17850) ''536365'' ''LANTERN'' 6 (339 / 100) (Text ''2011-01-15''),
       sale (Some 13047) ''536367'' ''MUG'' 2 (5 / 2) (Text ''2011-02-01'')]"
    by code_simp
  from filter_data_retains_valid_rows_in_order [of raw_example] rows
  show ?thesis by simp
qed

text \<open>
  Claim C6. Cleaning a cleaned frame changes nothing:
  \<open>filter_data (filter_data t) = filter_data t\<close> for every frame \<open>t\<close>.
\<close>

theorem filter_data_idempotent:
  "filter_data (filter_data dataset) = filter_data dataset"
  by (simp add: filter_data_filter)

section \<open>Properties of \<^verbatim>\<open>import_data\<close>\<close>

lemma split_not_Nil: "split sep s \<noteq> []"
  by (induction s) (auto split: list.splits)

lemma split_no_sep: "sep \<notin> set s \<Longrightarrow> split sep s = [s]"
  by (induction s) auto

lemma length_split: "length (split sep s) = Suc (count_list s sep)"
  by (induction s) (auto split: list.splits)

lemma last_split_append: "last (split sep (xs @ sep # ys)) = last (split sep ys)"
proof (induction xs)
  case Nil
  show ?case using split_not_Nil [of sep ys] by simp
next
  case (Cons x xs)
  have "length (split sep (xs @ sep # ys)) \<ge> 2"
    by (simp add: length_split)
  then obtain p q ps where "split sep (xs @ sep # ys) = p # q # ps"
    by (cases "split sep (xs @ sep # ys)"; cases "tl (split sep (xs @ sep # ys))") auto
  with Cons show ?case by auto
qed

text \<open>
  The extension that line 16 computes is what follows the last dot of the path, in lower
  case, and the whole path in lower case when the path has no dot.
\<close>

lemma file_extension_after_last_dot:
  "CHR ''.'' \<notin> set ext \<Longrightarrow> file_extension (base @ CHR ''.'' # ext) = lower ext"
  by (simp add: file_extension_def last_split_append split_no_sep)

lemma file_extension_no_dot:
  "CHR ''.'' \<notin> set file_path \<Longrightarrow> file_extension file_path = lower file_path"
  by (simp add: file_extension_def split_no_sep)

lemma from_library_not_ValueError: "from_library r \<noteq> Inl (ValueError m)"
  by (cases r) (simp_all add: from_library_def)

lemma takeWhile_stops: "\<forall>x \<in> set as. P x \<Longrightarrow> \<not> P b \<Longrightarrow> takeWhile P (as @ b # bs) = as"
  by (induction as) auto

lemma last_split_takeWhile:
  "last (split sep s) = rev (takeWhile (\<lambda>c. c \<noteq> sep) (rev s))"
proof (cases "sep \<in> set s")
  case False
  then have whole: "takeWhile (\<lambda>c. c \<noteq> sep) (rev s) = rev s"
    by auto
  have "rev (takeWhile (\<lambda>c. c \<noteq> sep) (rev s)) = s"
    by (simp only: whole rev_rev_ident)
  moreover from False have "last (split sep s) = s"
    by (simp add: split_no_sep)
  ultimately show ?thesis
    by simp
next
  case True
  then obtain xs ys where s: "s = xs @ sep # ys" and ys: "sep \<notin> set ys"
    by (meson split_list_last)
  from ys have "takeWhile (\<lambda>c. c \<noteq> sep) (rev ys @ sep # rev xs) = rev ys"
    by (intro takeWhile_stops) auto
  with ys show ?thesis
    unfolding s by (simp add: last_split_append split_no_sep)
qed

text \<open>
  On a path with a dot the code decides as its docstring says: the program's
  \<open>ValueError\<close> when the extension is not supported, the reader of the format otherwise.
\<close>

lemma file_extension_supported:
  "has_supported_extension file_path \<longleftrightarrow>
     CHR ''.'' \<in> set file_path \<and> file_extension file_path \<in> {''xlsx'', ''csv''}"
  by (simp add: has_supported_extension_def file_extension_def last_split_takeWhile)

lemma import_data_rejects_other_extension:
  assumes "CHR ''.'' \<in> set file_path" and "\<not> has_supported_extension file_path"
  shows "import_data read_excel read_csv file_path =
    Inl (ValueError ''File format not supported. Use .xlsx or .csv files.'')"
  using assms
  by (simp add: file_extension_supported import_data_def file_extension_def)

lemma import_data_reads_supported_extension:
  assumes "has_supported_extension file_path"
  shows "import_data read_excel read_csv file_path =
    (if file_extension file_path = ''xlsx'' then from_library (read_excel file_path)
     else from_library (read_csv file_path))"
  using assms
  by (auto simp: file_extension_supported import_data_def file_extension_def)

text \<open>
  Claim C9. A path whose extension is neither \<^verbatim>\<open>.xlsx\<close> nor \<^verbatim>\<open>.csv\<close> is to fail with
  the \<open>ValueError\<close> of line 23, the error that the specification calls
  \<open>UnsupportedFormat\<close>. The code does so on every path that has a dot
  (\<open>import_data_rejects_other_extension\<close>), but not on the path \<^verbatim>\<open>xlsx\<close>: it has no
  extension at all, line 16 takes the whole name for the extension, and the path is
  handed to the spreadsheet reader.
\<close>

theorem import_data_reads_path_without_extension:
  "\<not> has_supported_extension ''xlsx''
   \<and> import_data read_excel read_csv ''xlsx'' = from_library (read_excel ''xlsx'')
   \<and> import_data read_excel read_csv ''xlsx''
        \<noteq> Inl (ValueError ''File format not supported. Use .xlsx or .csv files.'')"
proof -
  have no: "\<not> has_supported_extension ''xlsx''"
    by (simp add: has_supported_extension_def)
  have "file_extension ''xlsx'' = ''xlsx''"
    by code_simp
  then have "import_data read_excel read_csv ''xlsx'' = from_library (read_excel ''xlsx'')"
    by (simp add: import_data_def file_extension_def)
  with no show ?thesis
    by (simp add: from_library_not_ValueError)
qed

text \<open>
  Claim C10. The extension is taken after the last dot and compared in lower case, so
  \<^verbatim>\<open>.XLSX\<close> and \<^verbatim>\<open>.Csv\<close> are read (\<open>file_extension_after_last_dot\<close>), and a path
  without a dot has its whole name as its extension (\<open>file_extension_no_dot\<close>). The
  claim that such a path is rejected fails on the path \<^verbatim>\<open>csv\<close>: it has no dot, hence no
  \<^verbatim>\<open>.csv\<close> extension, and the function hands it to the CSV reader where its docstring
  promises a \<open>ValueError\<close>.
\<close>

theorem import_data_accepts_path_without_dot:
  "CHR ''.'' \<notin> set ''csv''
   \<and> import_data read_excel read_csv ''csv'' = from_library (read_csv ''csv'')
   \<and> import_data read_excel read_csv ''csv''
        \<noteq> Inl (ValueError ''File format not supported. Use .xlsx or .csv files.'')"
proof -
  have "file_extension ''csv'' = ''csv''"
    by code_simp
  then have "import_data read_excel read_csv ''csv'' = from_library (read_csv ''csv'')"
    by (simp add: import_data_def file_extension_def)
  then show ?thesis
    by (simp add: from_library_not_ValueError)
qed

section \<open>Properties of grouping and sorting\<close>

lemma groupby_map:
  "map (\<lambda>(k, g). f k g) (groupby key df) =
   map (\<lambda>k. f k (filter (\<lambda>r. key r = Some k) df)) (sort (remdups (List.map_filter key df)))"
  by (simp add: groupby_def comp_def)

lemma set_map_filter_keys: "set (List.map_filter key df) = {k. Some k \<in> key ` set df}"
  by (induction df) (auto split: option.splits)

lemma nunique_card: "nunique cells = card (set cells)"
  by (simp add: nunique_def length_remdups_card_conv)

lemma sorts_descending_mset: "sorts_descending key srt \<Longrightarrow> mset (srt df) = mset df"
  by (simp add: sorts_descending_def)

lemma sorts_descending_set: "sorts_descending key srt \<Longrightarrow> set (srt df) = set df"
  by (metis sorts_descending_mset set_mset_mset)

lemma sorts_descending_length: "sorts_descending key srt \<Longrightarrow> length (srt df) = length df"
  by (metis sorts_descending_mset size_mset)

lemma sorts_descending_sorted:
  "sorts_descending key srt \<Longrightarrow> sorted_wrt (\<lambda>a b. key b \<le> key a) (srt df)"
  by (simp add: sorts_descending_def)

lemma sorts_descending_distinct_map:
  assumes "sorts_descending key srt" and "distinct (map f df)"
  shows "distinct (map f (srt df))"
proof -
  have "mset (map f (srt df)) = mset (map f df)"
    using assms(1) by (simp add: sorts_descending_mset)
  then show ?thesis
    using assms(2) mset_eq_imp_distinct_iff by blast
qed

lemma stable_sort_descending_ok: "sorts_descending key (stable_sort_descending key)"
  unfolding sorts_descending_def stable_sort_descending_def
  proof (intro allI conjI)
  fix df :: "'a list"
  show "mset (rev (sort_key key (rev df))) = mset df" by simp
  have "sorted (map key (sort_key key (rev df)))" by simp
  then show "sorted_wrt (\<lambda>a b. key b \<le> key a) (rev (sort_key key (rev df)))"
    by (simp add: sorted_wrt_rev sorted_map)
qed

lemma reversing_sort_descending_ok: "sorts_descending key (reversing_sort_descending key)"
  unfolding sorts_descending_def reversing_sort_descending_def
  proof (intro allI conjI)
  fix df :: "'a list"
  show "mset (rev (sort_key key df)) = mset df" by simp
  have "sorted (map key (sort_key key df))" by simp
  then show "sorted_wrt (\<lambda>a b. key b \<le> key a) (rev (sort_key key df))"
    by (simp add: sorted_wrt_rev sorted_map)
qed

section \<open>Properties of \<^verbatim>\<open>loyalty_customers\<close>\<close>

lemma customer_purchases_eq:
  "map (\<lambda>(c, g). \<lparr>CustomerID' = c, PurchaseCount = nunique (map InvoiceNo g)\<rparr>)
     (groupby CustomerID df) =
   map (\<lambda>c. \<lparr>CustomerID' = c, PurchaseCount = invoice_count df c\<rparr>)
     (sort (remdups (List.map_filter CustomerID df)))"
proof -
  have "nunique (map InvoiceNo (filter (\<lambda>r. CustomerID r = Some c) df)) = invoice_count df c" for c
    by (simp add: nunique_card invoice_count_def)
  then show ?thesis
    by (simp add: groupby_map [where f = "\<lambda>c g. \<lparr>CustomerID' = c, PurchaseCount = nunique (map InvoiceNo g)\<rparr>"])
qed

lemma loyalty_customers_eq:
  "loyalty_customers srt df m =
   srt (filter (\<lambda>r. m \<le> int (PurchaseCount r))
     (map (\<lambda>c. \<lparr>CustomerID' = c, PurchaseCount = invoice_count df c\<rparr>)
       (sort (remdups (List.map_filter CustomerID df)))))"
  by (simp add: loyalty_customers_def customer_purchases_eq)

lemma invoice_count_pos: "Some c \<in> CustomerID ` set df \<Longrightarrow> 0 < invoice_count df c"
  unfolding invoice_count_def by (auto simp: card_gt_0_iff)

text \<open>
  Claim C4. For every frame, hence every cleaned one, every threshold and every sort that
  meets the contract of \<^verbatim>\<open>sort_values\<close>: the rows of the result are exactly the
  customers of the frame (the \<open>CustomerID\<close>s that are not null) paired with the number of
  their distinct invoice numbers, for the customers whose number is at least
  \<open>min_purchases\<close>; each customer occurs once; the rows are in descending order of
  \<open>PurchaseCount\<close>; and with \<open>min_purchases \<le> 0\<close> every customer of the frame is in the
  result.
\<close>

theorem loyalty_customers_counts_distinct_invoices:
  assumes "sorts_descending PurchaseCount sort_values"
  shows "set (loyalty_customers sort_values df min_purchases) =
           {\<lparr>CustomerID' = c, PurchaseCount = invoice_count df c\<rparr> | c.
              Some c \<in> CustomerID ` set df \<and> min_purchases \<le> int (invoice_count df c)}
         \<and> distinct (map CustomerID' (loyalty_customers sort_values df min_purchases))
         \<and> sorted_wrt (\<lambda>a b. PurchaseCount b \<le> PurchaseCount a)
             (loyalty_customers sort_values df min_purchases)
         \<and> (min_purchases \<le> 0 \<longrightarrow>
             CustomerID' ` set (loyalty_customers sort_values df min_purchases) =
               {c. Some c \<in> CustomerID ` set df})"
proof -
  let ?keys = "sort (remdups (List.map_filter CustomerID df))"
  let ?cp = "map (\<lambda>c. \<lparr>CustomerID' = c, PurchaseCount = invoice_count df c\<rparr>) ?keys"
  let ?loyal = "filter (\<lambda>r. min_purchases \<le> int (PurchaseCount r)) ?cp"
  let ?out = "loyalty_customers sort_values df min_purchases"
  have out: "?out = sort_values ?loyal"
    by (rule loyalty_customers_eq)
  have keys: "set ?keys = {c. Some c \<in> CustomerID ` set df}"
    by (simp add: set_map_filter_keys)
  have set_out: "set ?out = {\<lparr>CustomerID' = c, PurchaseCount = invoice_count df c\<rparr> | c.
              Some c \<in> CustomerID ` set df \<and> min_purchases \<le> int (invoice_count df c)}"
    unfolding out sorts_descending_set [OF assms] using keys by auto
  have "map CustomerID' ?cp = ?keys"
    by (simp add: comp_def)
  then have "distinct (map CustomerID' ?cp)"
    by simp
  then have "distinct (map CustomerID' ?loyal)"
    by (rule distinct_map_filter)
  then have dist: "distinct (map CustomerID' ?out)"
    unfolding out by (rule sorts_descending_distinct_map [OF assms])
  have srt: "sorted_wrt (\<lambda>a b. PurchaseCount b \<le> PurchaseCount a) ?out"
    unfolding out by (rule sorts_descending_sorted [OF assms])
  have all: "CustomerID' ` set ?out = {c. Some c \<in> CustomerID ` set df}" if "min_purchases \<le> 0"
  proof -
    have "min_purchases \<le> int (invoice_count df c)" for c
      using that by simp
    then show ?thesis
      unfolding set_out by force
  qed
  from set_out dist srt all show ?thesis
    by blast
qed

theorem loyalty_customers_counts_distinct_invoices_witness:
  "sorts_descending PurchaseCount (stable_sort_descending PurchaseCount)
   \<and> loyalty_customers (stable_sort_descending PurchaseCount) loyalty_example 2 =
       [\<lparr>CustomerID' = 1, PurchaseCount = 2\<rparr>]
   \<and> invoice_count loyalty_example 1 = 2
   \<and> CustomerID' ` set (loyalty_customers (stable_sort_descending PurchaseCount)
         loyalty_example 0) = {c. Some c \<in> CustomerID ` set loyalty_example}"
proof -
  have ok: "sorts_descending PurchaseCount (stable_sort_descending PurchaseCount)"
    by (rule stable_sort_descending_ok)
  have out: "loyalty_customers (stable_sort_descending PurchaseCount) loyalty_example 2 =
       [\<lparr>CustomerID' = 1, PurchaseCount = 2\<rparr>]"
    by code_simp
  note two = loyalty_customers_counts_distinct_invoices [OF ok, of loyalty_example 2]
  note zero = loyalty_customers_counts_distinct_invoices [OF ok, of loyalty_example 0]
  have "\<lparr>CustomerID' = 1, PurchaseCount = 2\<rparr> \<in>
      set (loyalty_customers (stable_sort_descending PurchaseCount) loyalty_example 2)"
    unfolding out by simp
  with two have "\<lparr>CustomerID' = 1, PurchaseCount = 2\<rparr> \<in>
      {\<lparr>CustomerID' = c, PurchaseCount = invoice_count loyalty_example c\<rparr> | c.
         Some c \<in> CustomerID ` set loyalty_example \<and> 2 \<le> int (invoice_count loyalty_example c)}"
    by blast
  then have n: "invoice_count loyalty_example 1 = 2"
    by auto
  have "(0::int) \<le> 0"
    by simp
  with zero have "CustomerID' ` set (loyalty_customers (stable_sort_descending PurchaseCount)
         loyalty_example 0) = {c. Some c \<in> CustomerID ` set loyalty_example}"
    by blast
  with ok out n show ?thesis
    by blast
qed

section \<open>Properties of \<^verbatim>\<open>high_demand_products\<close>\<close>

lemma map_filter_Some: "List.map_filter (\<lambda>r. Some (f r)) df = map f df"
  by (induction df) auto

lemma wrap_int64_id: "0 \<le> x \<Longrightarrow> x < 2 ^ 63 \<Longrightarrow> wrap_int64 x = x"
  by (simp add: wrap_int64_def)

lemma cleaned_Quantity_present: "cleaned df \<Longrightarrow> list_all (\<lambda>r. Quantity r \<noteq> None) df"
  by (auto simp: cleaned_def list_all_iff valid_row_def ge_zero_Some)

lemma cleaned_group_sum:
  "cleaned df \<Longrightarrow>
   0 \<le> sum_skipna (map Quantity (filter P df)) \<and>
   sum_skipna (map Quantity (filter P df)) \<le> sum_skipna (map Quantity df)"
  unfolding cleaned_def sum_skipna_def
  by (induction df) (auto simp: valid_row_def ge_zero_Some)

lemma sum_Quantity_exact:
  assumes "cleaned df" and "sum_skipna (map Quantity df) < 2 ^ 63"
  shows "sum_Quantity df (filter (\<lambda>r. Description r = d) df) = total_sold df d"
proof -
  from cleaned_group_sum [OF assms(1), of "\<lambda>r. Description r = d"] assms(2)
  have "0 \<le> total_sold df d" and "total_sold df d < 2 ^ 63"
    by (simp_all add: total_sold_def)
  then have "wrap_int64 (total_sold df d) = total_sold df d"
    by (rule wrap_int64_id)
  then show ?thesis
    using cleaned_Quantity_present [OF assms(1)]
    by (simp add: sum_Quantity_def total_sold_def)
qed

lemma product_sales_eq:
  assumes "cleaned df" and "sum_skipna (map Quantity df) < 2 ^ 63"
  shows "map (\<lambda>(d, g). \<lparr>ProductName = d, TotalSold = sum_Quantity df g\<rparr>)
     (groupby (\<lambda>r. Some (Description r)) df) =
   map (\<lambda>d. \<lparr>ProductName = d, TotalSold = total_sold df d\<rparr>)
     (sort (remdups (map Description df)))"
  by (simp add: groupby_map [where f = "\<lambda>d g. \<lparr>ProductName = d, TotalSold = sum_Quantity df g\<rparr>"]
      map_filter_Some sum_Quantity_exact [OF assms])

lemma high_demand_products_eq:
  assumes "0 \<le> limit" and "cleaned df" and "sum_skipna (map Quantity df) < 2 ^ 63"
  shows "high_demand_products srt df limit =
   take (nat limit) (srt (map (\<lambda>d. \<lparr>ProductName = d, TotalSold = total_sold df d\<rparr>)
     (sort (remdups (map Description df)))))"
  using assms(1)
  by (simp add: high_demand_products_def product_sales_eq [OF assms(2,3)] head_def)

lemma sorted_wrt_take_drop:
  "sorted_wrt P xs \<Longrightarrow> x \<in> set (take n xs) \<Longrightarrow> y \<in> set (drop n xs) \<Longrightarrow> P x y"
  by (metis append_take_drop_id sorted_wrt_append)

lemma in_set_drop_if_not_take: "x \<in> set xs \<Longrightarrow> x \<notin> set (take n xs) \<Longrightarrow> x \<in> set (drop n xs)"
  by (metis append_take_drop_id set_append Un_iff)

lemma sorted_wrt_take: "sorted_wrt P xs \<Longrightarrow> sorted_wrt P (take n xs)"
  by (metis append_take_drop_id sorted_wrt_append)

text \<open>
  Claim C7, amended. For every cleaned frame whose quantities add up to less than
  \<open>2 ^ 63\<close>, every limit that is not negative and every sort that meets the contract of
  \<^verbatim>\<open>sort_values\<close>: the result has one row per product, no product twice, with the sum
  of the product's \<open>Quantity\<close> cells as \<open>TotalSold\<close>; it is in descending order of
  \<open>TotalSold\<close>; it has \<open>limit\<close> rows, or all the products when there are fewer; and every
  product left out has a total no greater than any total in the result. The order of
  products with equal totals is that of the sort in use; under a stable sort it is the
  grouped order (\<open>stable_sort_descending_keeps_ties\<close>).
\<close>

theorem high_demand_products_top_totals:
  assumes "sorts_descending TotalSold sort_values" and "0 \<le> limit"
    and "cleaned df" and "sum_skipna (map Quantity df) < 2 ^ 63"
  shows "sorted_wrt (\<lambda>a b. TotalSold b \<le> TotalSold a)
           (high_demand_products sort_values df limit)
       \<and> distinct (map ProductName (high_demand_products sort_values df limit))
       \<and> length (high_demand_products sort_values df limit) =
           min (nat limit) (card (Description ` set df))
       \<and> (\<forall>x \<in> set (high_demand_products sort_values df limit).
             ProductName x \<in> Description ` set df \<and>
             TotalSold x = total_sold df (ProductName x))
       \<and> (\<forall>d \<in> Description ` set df - ProductName ` set (high_demand_products sort_values df limit).
            \<forall>x \<in> set (high_demand_products sort_values df limit). total_sold df d \<le> TotalSold x)"
proof -
  let ?names = "sort (remdups (map Description df))"
  let ?sales = "map (\<lambda>d. \<lparr>ProductName = d, TotalSold = total_sold df d\<rparr>) ?names"
  let ?sorted = "sort_values ?sales"
  let ?out = "high_demand_products sort_values df limit"
  have out: "?out = take (nat limit) ?sorted"
    using assms(2,3,4) by (rule high_demand_products_eq)
  have set_sorted: "set ?sorted = set ?sales"
    by (rule sorts_descending_set [OF assms(1)])
  have desc: "sorted_wrt (\<lambda>a b. TotalSold b \<le> TotalSold a) ?sorted"
    by (rule sorts_descending_sorted [OF assms(1)])
  have a: "sorted_wrt (\<lambda>a b. TotalSold b \<le> TotalSold a) ?out"
    unfolding out using desc by (rule sorted_wrt_take)
  have "map ProductName ?sales = ?names"
    by (simp add: comp_def)
  then have "distinct (map ProductName ?sales)"
    by simp
  then have "distinct (map ProductName ?sorted)"
    by (rule sorts_descending_distinct_map [OF assms(1)])
  then have b: "distinct (map ProductName ?out)"
    unfolding out by (simp add: take_map [symmetric])
  have "length ?sorted = length ?names"
    by (simp add: sorts_descending_length [OF assms(1)])
  also have "\<dots> = card (Description ` set df)"
    by (simp add: length_remdups_card_conv)
  finally have c: "length ?out = min (nat limit) (card (Description ` set df))"
    unfolding out by (simp add: min.commute)
  have d: "\<forall>x \<in> set ?out.
      ProductName x \<in> Description ` set df \<and> TotalSold x = total_sold df (ProductName x)"
  proof
    fix x assume "x \<in> set ?out"
    then have "x \<in> set ?sales"
      unfolding out using set_sorted by (auto dest: in_set_takeD)
    then show "ProductName x \<in> Description ` set df \<and> TotalSold x = total_sold df (ProductName x)"
      by auto
  qed
  have e: "\<forall>d \<in> Description ` set df - ProductName ` set ?out.
      \<forall>x \<in> set ?out. total_sold df d \<le> TotalSold x"
  proof (intro ballI)
    fix d x
    assume d: "d \<in> Description ` set df - ProductName ` set ?out" and x: "x \<in> set ?out"
    let ?y = "\<lparr>ProductName = d, TotalSold = total_sold df d\<rparr>"
    have "?y \<in> set ?sales"
      using d by auto
    then have "?y \<in> set ?sorted"
      using set_sorted by simp
    moreover have "?y \<notin> set (take (nat limit) ?sorted)"
      using d unfolding out by force
    ultimately have "?y \<in> set (drop (nat limit) ?sorted)"
      by (rule in_set_drop_if_not_take)
    with x have "TotalSold ?y \<le> TotalSold x"
      unfolding out using sorted_wrt_take_drop [OF desc, of x "nat limit" ?y] by simp
    then show "total_sold df d \<le> TotalSold x"
      by simp
  qed
  from a b c d e show ?thesis
    by blast
qed

theorem high_demand_products_top_totals_witness:
  "sorts_descending TotalSold (stable_sort_descending TotalSold) \<and> (0::int) \<le> 2
   \<and> cleaned products_example \<and> sum_skipna (map Quantity products_example) < 2 ^ 63
   \<and> high_demand_products (stable_sort_descending TotalSold) products_example 2 =
       [\<lparr>ProductName = ''B'', TotalSold = 9\<rparr>, \<lparr>ProductName = ''C'', TotalSold = 9\<rparr>]
   \<and> total_sold products_example ''B'' = 9
   \<and> card (Description ` set products_example) \<ge> 2"
proof -
  have ok: "sorts_descending TotalSold (stable_sort_descending TotalSold)"
    by (rule stable_sort_descending_ok)
  have out: "high_demand_products (stable_sort_descending TotalSold) products_example 2 =
       [\<lparr>ProductName = ''B'', TotalSold = 9\<rparr>, \<lparr>ProductName = ''C'', TotalSold = 9\<rparr>]"
    by code_simp
  have le: "(0::int) \<le> 2" by simp
  have cl: "cleaned products_example"
    by code_simp
  have small: "sum_skipna (map Quantity products_example) < 2 ^ 63"
    by code_simp
  note top = high_demand_products_top_totals [OF ok le cl small]
  from top have "total_sold products_example ''B'' = 9"
    unfolding out by simp
  moreover from top have "length (high_demand_products (stable_sort_descending TotalSold)
      products_example 2) = min (nat 2) (card (Description ` set products_example))"
    by blast
  then have "card (Description ` set products_example) \<ge> 2"
    unfolding out by (simp add: min_def split: if_splits)
  ultimately show ?thesis
    using ok out cl small by simp
qed

text \<open>
  Claim C7 promises a stable tie-break: of two products with equal totals the one that
  comes first in the grouped frame comes first in the result. The code calls
  \<^verbatim>\<open>sort_values\<close> with the default \<^verbatim>\<open>kind='quicksort'\<close>, which is not stable, and so
  does not fix that order. On the frame with the products \<open>P0\<close> and \<open>P1\<close> sold once,
  \<open>P2\<close> three times and \<open>P3\<close> twice, grouped in that order, and the limit 3, the sort
  that leaves equal keys in reverse order returns \<open>P2\<close>, \<open>P3\<close>, \<open>P1\<close>: the tie between
  \<open>P0\<close> and \<open>P1\<close> goes to \<open>P1\<close>, the later of the two in the grouped frame.

  The claim also takes \<open>TotalSold\<close> to be the sum of the quantities. The sum is computed
  in \<^verbatim>\<open>int64\<close>: on a cleaned frame in which product \<open>A\<close> is sold \<open>2 ^ 62\<close> times twice and
  product \<open>B\<close> once, the total of \<open>A\<close> wraps around to \<open>- 2 ^ 63\<close> and the top product is
  \<open>B\<close>.
\<close>

theorem high_demand_products_tie_order_counterexample:
  "sorts_descending TotalSold (reversing_sort_descending TotalSold)
   \<and> cleaned tied_products_example
   \<and> map (\<lambda>(d, g). (d, sum_Quantity tied_products_example g))
        (groupby (\<lambda>r. Some (Description r)) tied_products_example) =
       [(''P0'', 1), (''P1'', 1), (''P2'', 3), (''P3'', 2)]
   \<and> high_demand_products (reversing_sort_descending TotalSold) tied_products_example 3 =
       [\<lparr>ProductName = ''P2'', TotalSold = 3\<rparr>, \<lparr>ProductName = ''P3'', TotalSold = 2\<rparr>,
        \<lparr>ProductName = ''P1'', TotalSold = 1\<rparr>]
   \<and> cleaned large_products_example
   \<and> total_sold large_products_example ''A'' = 9223372036854775808
   \<and> high_demand_products (stable_sort_descending TotalSold) large_products_example 2 =
       [\<lparr>ProductName = ''B'', TotalSold = 1\<rparr>,
        \<lparr>ProductName = ''A'', TotalSold = - 9223372036854775808\<rparr>]"
proof -
  have "cleaned tied_products_example"
    by code_simp
  moreover have "map (\<lambda>(d, g). (d, sum_Quantity tied_products_example g))
        (groupby (\<lambda>r. Some (Description r)) tied_products_example) =
       [(''P0'', 1), (''P1'', 1), (''P2'', 3), (''P3'', 2)]"
    by code_simp
  moreover have "high_demand_products (reversing_sort_descending TotalSold)
       tied_products_example 3 =
       [\<lparr>ProductName = ''P2'', TotalSold = 3\<rparr>, \<lparr>ProductName = ''P3'', TotalSold = 2\<rparr>,
        \<lparr>ProductName = ''P1'', TotalSold = 1\<rparr>]"
    by code_simp
  moreover have "cleaned large_products_example"
    by code_simp
  moreover have "total_sold large_products_example ''A'' = 9223372036854775808"
    by code_simp
  moreover have "high_demand_products (stable_sort_descending TotalSold)
       large_products_example 2 =
       [\<lparr>ProductName = ''B'', TotalSold = 1\<rparr>,
        \<lparr>ProductName = ''A'', TotalSold = - 9223372036854775808\<rparr>]"
    by code_simp
  ultimately show ?thesis
    using reversing_sort_descending_ok [of TotalSold] by simp
qed

lemma stable_sort_descending_keeps_ties:
  "filter (\<lambda>x. key x = k) (stable_sort_descending key df) = filter (\<lambda>x. key x = k) df"
  by (simp add: stable_sort_descending_def rev_filter [symmetric] sort_key_stable)

section \<open>Properties of \<^verbatim>\<open>purchase_patterns\<close>\<close>

lemma map_filter_id_Some: "List.map_filter id (map Some xs) = xs"
  by (induction xs) auto

lemma mean_skipna_Some: "xs \<noteq> [] \<Longrightarrow> mean_skipna (map Some xs) = Some (arithmetic_mean xs)"
  by (simp add: mean_skipna_def map_filter_id_Some arithmetic_mean_def)

lemma purchase_patterns_eq:
  "purchase_patterns df =
   map (\<lambda>d. \<lparr>item = d,
              mean_quantity =
                mean_skipna (map (\<lambda>r. map_option of_int (Quantity r)) (product_rows df d)),
              mean_price = mean_skipna (map UnitPrice (product_rows df d))\<rparr>)
     (sort (remdups (map Description df)))"
  by (simp add: purchase_patterns_def map_filter_Some product_rows_def
      groupby_map [where f = "\<lambda>d g. \<lparr>item = d,
         mean_quantity = mean_skipna (map (\<lambda>r. map_option of_int (Quantity r)) g),
         mean_price = mean_skipna (map UnitPrice g)\<rparr>"])

lemma cleaned_cells:
  assumes "list_all valid_row g"
  shows "\<exists>qs ps. map Quantity g = map Some qs \<and> map UnitPrice g = map Some ps"
proof (intro exI conjI)
  show "map Quantity g = map Some (map (\<lambda>r. the (Quantity r)) g)"
    using assms by (auto simp: list_all_iff valid_row_def ge_zero_Some)
  show "map UnitPrice g = map Some (map (\<lambda>r. the (UnitPrice r)) g)"
    using assms by (auto simp: list_all_iff valid_row_def ge_zero_Some)
qed

text \<open>
  Claim C8, amended. The result has exactly one row per distinct \<open>Description\<close> of the
  frame, and the rows are in strictly ascending order of the product name. On a cleaned
  frame the \<open>Quantity\<close> and \<open>UnitPrice\<close> cells of a product are all present, and
  \<open>mean_quantity\<close> and \<open>mean_price\<close> are their arithmetic means.
\<close>

theorem purchase_patterns_means_sorted_by_item:
  "sorted_wrt (<) (map item (purchase_patterns df))
   \<and> set (map item (purchase_patterns df)) = Description ` set df
   \<and> (cleaned df \<longrightarrow>
        (\<forall>x \<in> set (purchase_patterns df). \<exists>qs ps.
            qs \<noteq> [] \<and>
            map Quantity (product_rows df (item x)) = map Some qs \<and>
            map UnitPrice (product_rows df (item x)) = map Some ps \<and>
            mean_quantity x = Some (arithmetic_mean (map of_int qs)) \<and>
            mean_price x = Some (arithmetic_mean ps)))"
proof -
  let ?names = "sort (remdups (map Description df))"
  have items: "map item (purchase_patterns df) = ?names"
    by (simp add: purchase_patterns_eq comp_def)
  have a: "sorted_wrt (<) (map item (purchase_patterns df))"
    unfolding items by (simp add: strict_sorted_iff)
  have b: "set (map item (purchase_patterns df)) = Description ` set df"
    unfolding items by simp
  have c: "\<exists>qs ps. qs \<noteq> [] \<and>
            map Quantity (product_rows df (item x)) = map Some qs \<and>
            map UnitPrice (product_rows df (item x)) = map Some ps \<and>
            mean_quantity x = Some (arithmetic_mean (map of_int qs)) \<and>
            mean_price x = Some (arithmetic_mean ps)"
    if cl: "cleaned df" and x: "x \<in> set (purchase_patterns df)" for x
  proof -
    let ?g = "product_rows df (item x)"
    from x have d: "item x \<in> Description ` set df"
      and mq: "mean_quantity x = mean_skipna (map (\<lambda>r. map_option of_int (Quantity r)) ?g)"
      and mp: "mean_price x = mean_skipna (map UnitPrice ?g)"
      by (auto simp: purchase_patterns_eq)
    from d have ne: "?g \<noteq> []"
      by (auto simp: product_rows_def filter_empty_conv)
    from cl have "list_all valid_row ?g"
      by (simp add: cleaned_def product_rows_def list_all_iff)
    then obtain qs ps where qs: "map Quantity ?g = map Some qs" and ps: "map UnitPrice ?g = map Some ps"
      using cleaned_cells by blast
    from qs ne have qne: "qs \<noteq> []" by auto
    from ps ne have pne: "ps \<noteq> []" by auto
    have "map (\<lambda>r. map_option rat_of_int (Quantity r)) ?g =
        map (map_option rat_of_int) (map Quantity ?g)"
      by simp
    also have "\<dots> = map Some (map rat_of_int qs)"
      unfolding qs by simp
    finally have "mean_skipna (map (\<lambda>r. map_option rat_of_int (Quantity r)) ?g) =
        Some (arithmetic_mean (map rat_of_int qs))"
      using qne by (simp only: mean_skipna_Some map_is_Nil_conv not_False_eq_True)
    then have "mean_quantity x = Some (arithmetic_mean (map of_int qs))"
      using mq by simp
    moreover have "mean_price x = Some (arithmetic_mean ps)"
      using mp ps pne by (simp add: mean_skipna_Some)
    ultimately show ?thesis
      using qs ps qne by blast
  qed
  from a b c show ?thesis
    by blast
qed

theorem purchase_patterns_means_sorted_by_item_witness:
  "cleaned patterns_example
   \<and> purchase_patterns patterns_example =
       [\<lparr>item = ''A'', mean_quantity = Some 5, mean_price = Some 1\<rparr>,
        \<lparr>item = ''X'', mean_quantity = Some 3, mean_price = Some 15\<rparr>]
   \<and> (\<exists>qs ps. map Quantity (product_rows patterns_example ''X'') = map Some qs
         \<and> map UnitPrice (product_rows patterns_example ''X'') = map Some ps
         \<and> arithmetic_mean (map of_int qs) = 3 \<and> arithmetic_mean ps = 15)"
proof -
  have cl: "cleaned patterns_example"
    by code_simp
  have out: "purchase_patterns patterns_example =
       [\<lparr>item = ''A'', mean_quantity = Some 5, mean_price = Some 1\<rparr>,
        \<lparr>item = ''X'', mean_quantity = Some 3, mean_price = Some 15\<rparr>]"
    by code_simp
  from purchase_patterns_means_sorted_by_item [of patterns_example] cl
  have "\<forall>x \<in> set (purchase_patterns patterns_example). \<exists>qs ps.
            qs \<noteq> [] \<and>
            map Quantity (product_rows patterns_example (item x)) = map Some qs \<and>
            map UnitPrice (product_rows patterns_example (item x)) = map Some ps \<and>
            mean_quantity x = Some (arithmetic_mean (map of_int qs)) \<and>
            mean_price x = Some (arithmetic_mean ps)"
    by blast
  then have "\<exists>qs ps. map Quantity (product_rows patterns_example ''X'') = map Some qs
         \<and> map UnitPrice (product_rows patterns_example ''X'') = map Some ps
         \<and> arithmetic_mean (map of_int qs) = 3 \<and> arithmetic_mean ps = 15"
    unfolding out by fastforce
  with cl out show ?thesis
    by blast
qed

text \<open>
  Claim C8 says that the products come in the order of their first appearance in the
  input. \<^verbatim>\<open>groupby\<close> sorts the groups by key: in a frame whose rows are of the products
  \<open>X\<close>, \<open>A\<close>, \<open>X\<close> the result lists \<open>A\<close> before \<open>X\<close>.
\<close>

theorem purchase_patterns_order_counterexample:
  "map Description patterns_example = [''X'', ''A'', ''X'']
   \<and> map item (purchase_patterns patterns_example) = [''A'', ''X'']"
  by code_simp

section \<open>Properties of \<^verbatim>\<open>quarterly_revenue\<close>\<close>

lemma those_map_None: "\<exists>x \<in> set xs. f x = None \<Longrightarrow> those (map f xs) = None"
  by (induction xs) (auto split: option.splits)

lemma those_map_Some:
  "\<forall>x \<in> set xs. f x \<noteq> None \<Longrightarrow> those (map f xs) = Some (map (\<lambda>x. the (f x)) xs)"
  by (induction xs) (auto split: option.splits)

lemma map2_map_same: "map2 f xs (map g xs) = map (\<lambda>x. f x (g x)) xs"
  by (induction xs) auto

lemma quarterly_revenue_parse_error:
  assumes "\<not> dates_parse parse df"
  shows "quarterly_revenue parse df = (df, Inl (LibraryError ''DateParseError''))"
proof -
  from assms have "\<exists>r \<in> set df. to_datetime parse (InvoiceDate r) = None"
    by (auto simp: dates_parse_def list_all_iff)
  then have "those (map (\<lambda>r. to_datetime parse (InvoiceDate r)) df) = None"
    by (rule those_map_None)
  then show ?thesis
    by (simp add: quarterly_revenue_def)
qed

lemma assign_columns_fun:
  "assign_columns parse =
     (\<lambda>r. r\<lparr>InvoiceDate := the (to_datetime parse (InvoiceDate r)),
          TransactionRevenue := Some (mul_cells (UnitPrice r) (Quantity r))\<rparr>)"
  by (rule ext) (simp add: assign_columns_def row_revenue_def)

lemma quarterly_revenue_parsed:
  assumes "dates_parse parse df"
  shows "quarterly_revenue parse df =
    (map (assign_columns parse) df, groupby_quarter_sum (map (assign_columns parse) df))"
proof -
  from assms have "\<forall>r \<in> set df. to_datetime parse (InvoiceDate r) \<noteq> None"
    by (simp add: dates_parse_def list_all_iff)
  then have "those (map (\<lambda>r. to_datetime parse (InvoiceDate r)) df) =
      Some (map (\<lambda>r. the (to_datetime parse (InvoiceDate r))) df)"
    by (rule those_map_Some)
  then show ?thesis
    by (simp add: quarterly_revenue_def map2_map_same assign_columns_fun comp_def Let_def)
qed

lemma assign_columns_quarter:
  "to_datetime parse (InvoiceDate r) \<noteq> None \<Longrightarrow>
   cell_quarter (InvoiceDate (assign_columns parse r)) = parsed_quarter parse r"
  by (cases "InvoiceDate r") (auto simp: assign_columns_def parsed_quarter_def)

lemma assign_columns_revenue: "revenue_cell (assign_columns parse r) = row_revenue r"
  by (simp add: assign_columns_def revenue_cell_def)

lemma assigned_quarters:
  "dates_parse parse df \<Longrightarrow>
   List.map_filter (\<lambda>r. cell_quarter (InvoiceDate r)) (map (assign_columns parse) df) =
     dated_quarters parse df"
  unfolding dated_quarters_def dates_parse_def
  by (induction df) (auto simp: assign_columns_quarter split: option.splits)

lemma assigned_quarter_rows:
  "dates_parse parse df \<Longrightarrow>
   filter (\<lambda>r. cell_quarter (InvoiceDate r) = Some q) (map (assign_columns parse) df) =
     map (assign_columns parse) (filter (\<lambda>r. parsed_quarter parse r = Some q) df)"
  unfolding dates_parse_def
  by (induction df) (auto simp: assign_columns_quarter)

lemma assigned_quarter_sum:
  assumes "dates_parse parse df"
  shows "sum_skipna (map revenue_cell
      (filter (\<lambda>r. cell_quarter (InvoiceDate r) = Some q) (map (assign_columns parse) df))) =
    quarter_total parse df q"
  by (simp add: assigned_quarter_rows [OF assms] quarter_total_def comp_def
      assign_columns_revenue)

lemma quarterly_revenue_summary:
  assumes "dates_parse parse df" and "dated_quarters parse df \<noteq> []"
  shows "snd (quarterly_revenue parse df) =
    Inr (map (\<lambda>q. \<lparr>period = quarter_end q, revenue = quarter_total parse df q\<rparr>)
      [Min (set (dated_quarters parse df)) .. Max (set (dated_quarters parse df))])"
proof -
  from assms(2) have "df \<noteq> []"
    by (auto simp: dated_quarters_def)
  then show ?thesis
    using assms(2)
    by (simp add: quarterly_revenue_parsed [OF assms(1)] groupby_quarter_sum_def
        assigned_quarters [OF assms(1)] assigned_quarter_sum [OF assms(1)] Let_def)
qed

lemma quarter_index_quarter_end: "quarter_index (quarter_end q) = q"
proof -
  have "0 \<le> q mod 4" by simp
  then have "int ((3 * nat (q mod 4) + 3 - 1) div 3) = q mod 4"
    by (simp add: nat_mult_distrib) 
  then show ?thesis
    by (simp add: quarter_index_def quarter_end_def)
qed

lemma quarter_total_no_rows:
  "q \<notin> set (dated_quarters parse df) \<Longrightarrow> quarter_total parse df q = 0"
proof -
  assume "q \<notin> set (dated_quarters parse df)"
  then have "filter (\<lambda>r. parsed_quarter parse r = Some q) df = []"
    by (auto simp: dated_quarters_def set_map_filter_keys filter_empty_conv image_iff
        dest: sym)
  then show ?thesis
    by (simp add: quarter_total_def sum_skipna_def)
qed

text \<open>
  Claim C2, amended. When every date is null or parses and some row has a date,
  \<open>quarterly_revenue\<close> returns a summary with exactly one row for every calendar quarter
  from the quarter of the earliest date to the quarter of the latest date, in
  chronological order, each labelled by the last day of its quarter and holding the sum
  of the revenue of the rows dated in that quarter. A quarter of that range in which no
  row falls is in the summary with revenue \<open>0\<close>.
\<close>

theorem quarterly_revenue_one_row_per_quarter_in_range:
  assumes "dates_parse parse df" and "dated_quarters parse df \<noteq> []"
  shows "\<exists>s. snd (quarterly_revenue parse df) = Inr s
     \<and> map (\<lambda>x. quarter_index (period x)) s =
         [Min (set (dated_quarters parse df)) .. Max (set (dated_quarters parse df))]
     \<and> sorted_wrt (<) (map (\<lambda>x. quarter_index (period x)) s)
     \<and> (\<forall>x \<in> set s. period x = quarter_end (quarter_index (period x))
           \<and> revenue x = quarter_total parse df (quarter_index (period x)))
     \<and> (\<forall>q. Min (set (dated_quarters parse df)) \<le> q
             \<and> q \<le> Max (set (dated_quarters parse df))
             \<and> q \<notin> set (dated_quarters parse df)
           \<longrightarrow> \<lparr>period = quarter_end q, revenue = 0\<rparr> \<in> set s)"
proof -
  let ?lo = "Min (set (dated_quarters parse df))"
  let ?hi = "Max (set (dated_quarters parse df))"
  let ?s = "map (\<lambda>q. \<lparr>period = quarter_end q, revenue = quarter_total parse df q\<rparr>) [?lo..?hi]"
  have res: "snd (quarterly_revenue parse df) = Inr ?s"
    using assms by (rule quarterly_revenue_summary)
  have idx: "map (\<lambda>x. quarter_index (period x)) ?s = [?lo..?hi]"
    by (simp add: comp_def quarter_index_quarter_end)
  have chrono: "sorted_wrt (<) (map (\<lambda>x. quarter_index (period x)) ?s)"
    unfolding idx by (simp add: strict_sorted_iff)
  have rows: "\<forall>x \<in> set ?s. period x = quarter_end (quarter_index (period x))
           \<and> revenue x = quarter_total parse df (quarter_index (period x))"
    by (auto simp: quarter_index_quarter_end)
  have empty: "\<forall>q. ?lo \<le> q \<and> q \<le> ?hi \<and> q \<notin> set (dated_quarters parse df)
           \<longrightarrow> \<lparr>period = quarter_end q, revenue = 0\<rparr> \<in> set ?s"
  proof (intro allI impI)
    fix q assume q: "?lo \<le> q \<and> q \<le> ?hi \<and> q \<notin> set (dated_quarters parse df)"
    then have "quarter_total parse df q = 0"
      by (simp add: quarter_total_no_rows)
    moreover from q have "q \<in> set [?lo..?hi]"
      by simp
    ultimately show "\<lparr>period = quarter_end q, revenue = 0\<rparr> \<in> set ?s"
      by force
  qed
  from res idx chrono rows empty show ?thesis
    by blast
qed

theorem quarterly_revenue_one_row_per_quarter_in_range_witness:
  "dates_parse iso_date quarters_example \<and> dated_quarters iso_date quarters_example \<noteq> []
   \<and> snd (quarterly_revenue iso_date quarters_example) =
       Inr [\<lparr>period = \<lparr>year = 2011, month = 3, day = 31\<rparr>, revenue = 30\<rparr>,
            \<lparr>period = \<lparr>year = 2011, month = 6, day = 30\<rparr>, revenue = 0\<rparr>,
            \<lparr>period = \<lparr>year = 2011, month = 9, day = 30\<rparr>, revenue = 5\<rparr>]
   \<and> quarter_total iso_date quarters_example 8044 = 30
   \<and> [Min (set (dated_quarters iso_date quarters_example)) ..
        Max (set (dated_quarters iso_date quarters_example))] = [8044, 8045, 8046]"
proof -
  have dp: "dates_parse iso_date quarters_example"
    by code_simp
  have dq: "dated_quarters iso_date quarters_example \<noteq> []"
    by code_simp
  have out: "snd (quarterly_revenue iso_date quarters_example) =
       Inr [\<lparr>period = \<lparr>year = 2011, month = 3, day = 31\<rparr>, revenue = 30\<rparr>,
            \<lparr>period = \<lparr>year = 2011, month = 6, day = 30\<rparr>, revenue = 0\<rparr>,
            \<lparr>period = \<lparr>year = 2011, month = 9, day = 30\<rparr>, revenue = 5\<rparr>]"
    by code_simp
  from quarterly_revenue_one_row_per_quarter_in_range [OF dp dq]
  have "quarter_total iso_date quarters_example 8044 = 30
     \<and> [Min (set (dated_quarters iso_date quarters_example)) ..
        Max (set (dated_quarters iso_date quarters_example))] = [8044, 8045, 8046]"
    unfolding out by (auto simp: quarter_index_def)
  with dp dq out show ?thesis
    by blast
qed

text \<open>
  Claim C2 says that a quarter without rows between the earliest and the latest date is
  not in the summary. The grouper emits every bin of the range: a cleaned frame with rows
  in the first and in the third quarter of 2011 gives three rows, the second quarter
  with revenue \<open>0\<close>.
\<close>

theorem quarterly_revenue_emits_empty_quarter_counterexample:
  "cleaned quarters_example
   \<and> map (parsed_quarter iso_date) quarters_example = [Some 8044, Some 8044, Some 8046]
   \<and> snd (quarterly_revenue iso_date quarters_example) =
       Inr [\<lparr>period = \<lparr>year = 2011, month = 3, day = 31\<rparr>, revenue = 30\<rparr>,
            \<lparr>period = \<lparr>year = 2011, month = 6, day = 30\<rparr>, revenue = 0\<rparr>,
            \<lparr>period = \<lparr>year = 2011, month = 9, day = 30\<rparr>, revenue = 5\<rparr>]"
  by code_simp

lemma to_datetime_again:
  "to_datetime parse c = Some c' \<Longrightarrow> to_datetime parse' c' = Some c'"
  by (cases c) auto

lemma assign_columns_again:
  assumes "to_datetime parse (InvoiceDate r) \<noteq> None"
  shows "to_datetime parse (InvoiceDate (assign_columns parse r)) \<noteq> None"
    and "assign_columns parse (assign_columns parse r) = assign_columns parse r"
proof -
  from assms obtain c where c: "to_datetime parse (InvoiceDate r) = Some c"
    by auto
  then have again: "to_datetime parse c = Some c"
    by (rule to_datetime_again)
  from c again show "to_datetime parse (InvoiceDate (assign_columns parse r)) \<noteq> None"
    by (simp add: assign_columns_def)
  from c again show "assign_columns parse (assign_columns parse r) = assign_columns parse r"
    by (simp add: assign_columns_def row_revenue_def)
qed

lemma quarterly_revenue_again:
  "quarterly_revenue parse (fst (quarterly_revenue parse df)) = quarterly_revenue parse df"
proof (cases "dates_parse parse df")
  case True
  let ?df' = "map (assign_columns parse) df"
  from True have all: "\<forall>r \<in> set df. to_datetime parse (InvoiceDate r) \<noteq> None"
    by (simp add: dates_parse_def list_all_iff)
  then have "dates_parse parse ?df'"
    using assign_columns_again(1) by (auto simp: dates_parse_def list_all_iff)
  then have "quarterly_revenue parse ?df' =
      (map (assign_columns parse) ?df', groupby_quarter_sum (map (assign_columns parse) ?df'))"
    by (rule quarterly_revenue_parsed)
  moreover from all have "map (assign_columns parse) ?df' = ?df'"
    by (simp add: assign_columns_again(2))
  ultimately have "quarterly_revenue parse ?df' = (?df', groupby_quarter_sum ?df')"
    by (simp only:)
  then show ?thesis
    by (simp only: quarterly_revenue_parsed [OF True] fst_conv)
next
  case False
  then show ?thesis
    by (simp add: quarterly_revenue_parse_error)
qed

lemma to_datetime_the:
  "to_datetime parse c \<noteq> None \<Longrightarrow> Some (the (to_datetime parse c)) = to_datetime parse c"
  by auto

text \<open>
  Claim C1, amended. \<open>filter_data\<close>, \<open>loyalty_customers\<close>, \<open>high_demand_products\<close> and
  \<open>purchase_patterns\<close> assign to nothing: they are functions of their arguments and
  return a new frame. \<open>quarterly_revenue\<close> changes its argument, and only in this way:
  the number and order of the rows and the columns \<open>CustomerID\<close>, \<open>InvoiceNo\<close>,
  \<open>Description\<close>, \<open>Quantity\<close> and \<open>UnitPrice\<close> are kept; when every date is null or
  parses, \<open>InvoiceDate\<close> holds the parsed dates and \<open>TransactionRevenue\<close> the product of
  \<open>UnitPrice\<close> and \<open>Quantity\<close>; when a date does not parse the frame is left as it was.
  A second call on the same frame, as the first call left it, returns the same result
  and changes nothing more.
\<close>

theorem quarterly_revenue_assigns_columns_of_its_argument:
  "quarterly_revenue parse (fst (quarterly_revenue parse df)) = quarterly_revenue parse df
   \<and> length (fst (quarterly_revenue parse df)) = length df
   \<and> map CustomerID (fst (quarterly_revenue parse df)) = map CustomerID df
   \<and> map InvoiceNo (fst (quarterly_revenue parse df)) = map InvoiceNo df
   \<and> map Description (fst (quarterly_revenue parse df)) = map Description df
   \<and> map Quantity (fst (quarterly_revenue parse df)) = map Quantity df
   \<and> map UnitPrice (fst (quarterly_revenue parse df)) = map UnitPrice df
   \<and> (dates_parse parse df \<longrightarrow>
        map (\<lambda>r. Some (InvoiceDate r)) (fst (quarterly_revenue parse df)) =
          map (\<lambda>r. to_datetime parse (InvoiceDate r)) df
        \<and> map TransactionRevenue (fst (quarterly_revenue parse df)) =
          map (\<lambda>r. Some (row_revenue r)) df)
   \<and> (\<not> dates_parse parse df \<longrightarrow> fst (quarterly_revenue parse df) = df)"
proof (cases "dates_parse parse df")
  case True
  then have all: "\<forall>r \<in> set df. to_datetime parse (InvoiceDate r) \<noteq> None"
    by (simp add: dates_parse_def list_all_iff)
  have df': "fst (quarterly_revenue parse df) = map (assign_columns parse) df"
    by (simp add: quarterly_revenue_parsed [OF True])
  have "map (\<lambda>r. Some (InvoiceDate r)) (map (assign_columns parse) df) =
          map (\<lambda>r. to_datetime parse (InvoiceDate r)) df"
    using all by (simp add: assign_columns_def to_datetime_the)
  with True show ?thesis
    unfolding df' quarterly_revenue_again [of parse df, unfolded df']
    by (simp add: assign_columns_def comp_def)
next
  case False
  then show ?thesis
    using quarterly_revenue_again [of parse df]
    by (simp add: quarterly_revenue_parse_error)
qed

theorem quarterly_revenue_assigns_columns_of_its_argument_witness:
  "dates_parse iso_date quarters_example
   \<and> map TransactionRevenue (fst (quarterly_revenue iso_date quarters_example)) =
       map (\<lambda>r. Some (row_revenue r)) quarters_example
   \<and> quarterly_revenue iso_date (fst (quarterly_revenue iso_date quarters_example)) =
       quarterly_revenue iso_date quarters_example
   \<and> \<not> dates_parse iso_date unparseable_example
   \<and> fst (quarterly_revenue iso_date unparseable_example) = unparseable_example"
proof -
  have dp: "dates_parse iso_date quarters_example"
    by code_simp
  have ndp: "\<not> dates_parse iso_date unparseable_example"
    by code_simp
  from quarterly_revenue_assigns_columns_of_its_argument [of iso_date quarters_example]
    quarterly_revenue_assigns_columns_of_its_argument [of iso_date unparseable_example]
    dp ndp
  show ?thesis
    by blast
qed

text \<open>
  Claim C1 says that every aggregator leaves its input unchanged. \<open>quarterly_revenue\<close>
  assigns to two columns of its argument: after the call the frame has the column
  \<open>TransactionRevenue\<close>, which it did not have before.
\<close>

theorem quarterly_revenue_modifies_argument_counterexample:
  "fst (quarterly_revenue iso_date quarters_example) \<noteq> quarters_example
   \<and> map TransactionRevenue quarters_example = [None, None, None]
   \<and> map TransactionRevenue (fst (quarterly_revenue iso_date quarters_example)) =
       [Some (Some 10), Some (Some 20), Some (Some 5)]"
proof -
  have a: "map TransactionRevenue quarters_example = [None, None, None]"
    by code_simp
  have b: "map TransactionRevenue (fst (quarterly_revenue iso_date quarters_example)) =
       [Some (Some 10), Some (Some 20), Some (Some 5)]"
    by code_simp
  have "fst (quarterly_revenue iso_date quarters_example) \<noteq> quarters_example"
  proof
    assume same: "fst (quarterly_revenue iso_date quarters_example) = quarters_example"
    from b have "map TransactionRevenue quarters_example =
        [Some (Some 10), Some (Some 20), Some (Some 5)]"
      unfolding same .
    with a show False
      by simp
  qed
  with a b show ?thesis
    by blast
qed

lemma parsed_quarter_NaT: "InvoiceDate r = NaT \<Longrightarrow> parsed_quarter parse r = None"
  by (simp add: parsed_quarter_def)

lemma dated_quarters_dropna:
  "dated_quarters parse (filter (\<lambda>r. InvoiceDate r \<noteq> NaT) df) = dated_quarters parse df"
  unfolding dated_quarters_def
  by (induction df) (auto simp: parsed_quarter_NaT split: option.splits)

lemma quarter_total_dropna:
  "quarter_total parse (filter (\<lambda>r. InvoiceDate r \<noteq> NaT) df) q = quarter_total parse df q"
proof -
  have "filter (\<lambda>r. parsed_quarter parse r = Some q) (filter (\<lambda>r. InvoiceDate r \<noteq> NaT) df) =
      filter (\<lambda>r. parsed_quarter parse r = Some q) df"
    by (induction df) (auto simp: parsed_quarter_NaT)
  then show ?thesis
    by (simp add: quarter_total_def)
qed

text \<open>
  Claim C3, amended. When every date is null or parses and some row has a date,
  \<open>quarterly_revenue\<close> returns a summary, and it is the summary of the frame without the
  rows whose date is null: those rows are in no quarter, and the other rows are
  aggregated as before. When some date does not parse, the call raises the parser's
  exception and leaves the frame as it was.
\<close>

theorem quarterly_revenue_skips_null_dates_raises_on_unparseable:
  "(dates_parse parse df \<and> dated_quarters parse df \<noteq> [] \<longrightarrow>
      (\<exists>s. snd (quarterly_revenue parse df) = Inr s)
      \<and> snd (quarterly_revenue parse df) =
          snd (quarterly_revenue parse (filter (\<lambda>r. InvoiceDate r \<noteq> NaT) df)))
   \<and> (\<not> dates_parse parse df \<longrightarrow>
        quarterly_revenue parse df = (df, Inl (LibraryError ''DateParseError'')))"
proof (intro conjI impI)
  assume a: "dates_parse parse df \<and> dated_quarters parse df \<noteq> []"
  let ?df' = "filter (\<lambda>r. InvoiceDate r \<noteq> NaT) df"
  from a have 1: "dates_parse parse ?df'"
    by (simp add: dates_parse_def list_all_iff)
  from a have 2: "dated_quarters parse ?df' \<noteq> []"
    by (simp add: dated_quarters_dropna)
  from a show "\<exists>s. snd (quarterly_revenue parse df) = Inr s"
    by (simp add: quarterly_revenue_summary)
  from a show "snd (quarterly_revenue parse df) = snd (quarterly_revenue parse ?df')"
    by (simp add: quarterly_revenue_summary [OF 1 2] quarterly_revenue_summary
        dated_quarters_dropna quarter_total_dropna)
next
  assume "\<not> dates_parse parse df"
  then show "quarterly_revenue parse df = (df, Inl (LibraryError ''DateParseError''))"
    by (rule quarterly_revenue_parse_error)
qed

theorem quarterly_revenue_skips_null_dates_raises_on_unparseable_witness:
  "dates_parse iso_date undated_example \<and> dated_quarters iso_date undated_example \<noteq> []
   \<and> snd (quarterly_revenue iso_date undated_example) =
       Inr [\<lparr>period = \<lparr>year = 2011, month = 3, day = 31\<rparr>, revenue = 10\<rparr>,
            \<lparr>period = \<lparr>year = 2011, month = 6, day = 30\<rparr>, revenue = 5\<rparr>]
   \<and> snd (quarterly_revenue iso_date (filter (\<lambda>r. InvoiceDate r \<noteq> NaT) undated_example)) =
       Inr [\<lparr>period = \<lparr>year = 2011, month = 3, day = 31\<rparr>, revenue = 10\<rparr>,
            \<lparr>period = \<lparr>year = 2011, month = 6, day = 30\<rparr>, revenue = 5\<rparr>]
   \<and> \<not> dates_parse iso_date unparseable_example
   \<and> snd (quarterly_revenue iso_date unparseable_example) =
       Inl (LibraryError ''DateParseError'')"
proof -
  have dp: "dates_parse iso_date undated_example"
    by code_simp
  have dq: "dated_quarters iso_date undated_example \<noteq> []"
    by code_simp
  have ndp: "\<not> dates_parse iso_date unparseable_example"
    by code_simp
  have out: "snd (quarterly_revenue iso_date undated_example) =
       Inr [\<lparr>period = \<lparr>year = 2011, month = 3, day = 31\<rparr>, revenue = 10\<rparr>,
            \<lparr>period = \<lparr>year = 2011, month = 6, day = 30\<rparr>, revenue = 5\<rparr>]"
    by code_simp
  from quarterly_revenue_skips_null_dates_raises_on_unparseable [of iso_date undated_example]
    quarterly_revenue_skips_null_dates_raises_on_unparseable [of iso_date unparseable_example]
    dp dq ndp out
  show ?thesis
    by simp
qed

text \<open>
  Claim C3 says that a row whose date cannot be parsed is left out without an error.
  \<^verbatim>\<open>pd.to_datetime\<close> is called with the default \<^verbatim>\<open>errors='raise'\<close>: one date that does
  not parse makes the whole call raise, and nothing is aggregated.
\<close>

theorem quarterly_revenue_unparseable_date_counterexample:
  "quarterly_revenue iso_date unparseable_example =
     (unparseable_example, Inl (LibraryError ''DateParseError''))"
  by code_simp

end
